theory Spec2Isabelle
  imports Main
begin

section \<open>The vote endpoints: src/app/api/vote/route.ts\<close>

text \<open>
  The two route handlers \<open>GET\<close> and \<open>PATCH\<close> are embedded as functions of the request
  and of the server's state. Their collaborators \<open>serverGetLoggedInUser\<close>,
  \<open>getChatById\<close>, \<open>getVotesByChatId\<close> and \<open>voteMessage\<close> are imported by the route from
  modules that are not part of the sources at hand; each is modelled below from the
  contract the specification gives for it. An \<open>await\<close> that throws makes the handler
  throw: the handlers return a sum, \<open>Inl\<close> the exception.
\<close>

record user =
  user_ident :: string
  user_email :: string

datatype chat = Chat string

text \<open>A vote as the endpoints exchange it: \<open>{chatId, messageId, isUpvoted}\<close>.\<close>

record vote_record =
  chatId :: string
  messageId :: string
  isUpvoted :: bool

record server =
  session :: "user option"
  chats :: "string \<Rightarrow> chat option"
  votes :: "vote_record list"

text \<open>
  What a handler can throw: \<open>SyntaxError\<close> when \<open>request.json()\<close> rejects, \<open>TypeError\<close>
  when the body is destructured and is \<open>null\<close>, \<open>Unauthorized\<close> when the caller does not
  resolve.
\<close>

datatype exn = SyntaxError | TypeError | Unauthorized

datatype payload = Text string | Json "vote_record list"

record response =
  status :: nat
  payload :: payload

text \<open>
  Modelled from the spec: \<open>serverGetLoggedInUser\<close> is missing from the sources; the
  specification gives the contract \<open>resolveCurrentUser() -> {id, email} | fails(Unauthorized)\<close>.
\<close>

definition serverGetLoggedInUser :: "server \<Rightarrow> exn + user" where
  "serverGetLoggedInUser s = (case session s of None \<Rightarrow> Inl Unauthorized | Some u \<Rightarrow> Inr u)"

text \<open>
  Modelled from the spec: \<open>getChatById\<close> is missing from the sources; the specification
  gives \<open>loadChat(id)\<close>, which yields the chat or nothing when the chat does not resolve
  for the caller.
\<close>

definition getChatById :: "string \<Rightarrow> server \<Rightarrow> chat option" where
  "getChatById ident s = chats s ident"

text \<open>
  Modelled from the spec: \<open>getVotesByChatId\<close> is missing from the sources; the
  specification gives \<open>loadVotes(chatId)\<close>, the vote records of that chat.
\<close>

definition getVotesByChatId :: "string \<Rightarrow> server \<Rightarrow> vote_record list" where
  "getVotesByChatId ident s = filter (\<lambda>v. chatId v = ident) (votes s)"






text \<open>
  \<open>GET\<close> (route.ts, lines 5 to 25). The argument is \<open>searchParams.get('chatId')\<close>: \<open>None\<close>
  when the query has no such parameter. The test \<open>!chatId\<close> holds of \<open>null\<close> and of the
  empty string.
\<close>

fun GET :: "string option \<Rightarrow> server \<Rightarrow> exn + response" where
  "GET None s = Inr \<lparr>status = 400, payload = Text ''chatId is required''\<rparr>"
| "GET (Some ident) s =
     (if ident = [] then Inr \<lparr>status = 400, payload = Text ''chatId is required''\<rparr>
      else case serverGetLoggedInUser s of
        Inl e \<Rightarrow> Inl e
      | Inr u \<Rightarrow>
          (case getChatById ident s of
             None \<Rightarrow> Inr \<lparr>status = 404, payload = Text ''Chat not found''\<rparr>
           | Some c \<Rightarrow> Inr \<lparr>status = 200, payload = Json (getVotesByChatId ident s)\<rparr>))"

text \<open>
  \<open>PATCH\<close> (route.ts, lines 27 to 55). The request's body is what
  \<open>await request.json()\<close> makes of it: the promise rejects when the body is empty or is
  not JSON (\<open>Unparsable\<close>); the value \<open>null\<close> cannot be destructured (\<open>JsonNull\<close>); any
  other value is destructured into the three fields, a field that the value lacks being
  \<open>undefined\<close> (\<open>None\<close>). A JSON number, string, boolean or array has none of the three
  fields: it is the object with the three fields \<open>None\<close>. The handler also returns the
  server's state, which \<open>voteMessage\<close> alone changes.
\<close>

record patch_body =
  body_chatId :: "string option"
  body_messageId :: "string option"
  body_type :: "string option"



text \<open>A body field is missing for the handler when \<open>!field\<close> holds.\<close>

definition missing :: "string option \<Rightarrow> bool" where
  "missing x = (case x of None \<Rightarrow> True | Some v \<Rightarrow> v = [])"


section \<open>The client: src/components/message-actions.tsx and the chat component\<close>

text \<open>
  The client's state is what the handlers touch: the SWR cache (a key has data or is
  \<open>undefined\<close>), the keys handed to \<open>mutate\<close> for revalidation, the toasts raised, and the
  requests issued with \<open>fetch\<close>.
\<close>

record WorkspaceChatVote =
  chat_id :: string
  message_id :: string
  is_upvoted :: bool
  user_id :: string

datatype role = System | User | Assistant | Data

record message =
  msg_id :: string
  msg_role :: role

datatype toast = Loading string | Success string | Failure string

record client =
  cache :: "string \<Rightarrow> WorkspaceChatVote list option"
  revalidated :: "string list"
  toasts :: "toast list"
  requests :: "patch_body list"

text \<open>
  How the request handed to \<open>toast.promise\<close> ends: \<open>Succeeded\<close> when the library takes
  its \<open>success\<close> branch, \<open>Failed\<close> when it takes its \<open>error\<close> branch (the promise of
  \<open>fetch\<close> was rejected, or the library judged its response a failure).
\<close>

datatype settled = Succeeded | Failed

text \<open>
  \<open>mutate(key, f, {revalidate: false})\<close> of SWR stores \<open>f\<close> of the current data under the
  key; \<open>mutate(key)\<close> marks the key for revalidation.
\<close>

definition mutate :: "string \<Rightarrow> (WorkspaceChatVote list option \<Rightarrow> WorkspaceChatVote list)
    \<Rightarrow> client \<Rightarrow> client" where
  "mutate k f st = st\<lparr>cache := (cache st)(k := Some (f (cache st k)))\<rparr>"

definition mutate_key :: "string \<Rightarrow> client \<Rightarrow> client" where
  "mutate_key k st = st\<lparr>revalidated := revalidated st @ [k]\<rparr>"

definition raise_toast :: "toast \<Rightarrow> client \<Rightarrow> client" where
  "raise_toast t st = st\<lparr>toasts := toasts st @ [t]\<rparr>"

definition fetch :: "patch_body \<Rightarrow> client \<Rightarrow> client" where
  "fetch b st = st\<lparr>requests := requests st @ [b]\<rparr>"

text \<open>
  \<open>toast.promise(p, {loading, success, error})\<close> of sonner: the loading toast at once; when
  the request has ended, either the \<open>success\<close> callback runs and its message is shown, or
  the \<open>error\<close> message is shown.
\<close>

definition toast_promise_settled ::
  "settled \<Rightarrow> (client \<Rightarrow> string \<times> client) \<Rightarrow> string \<Rightarrow> client \<Rightarrow> client" where
  "toast_promise_settled r success error st =
     (case r of
        Succeeded \<Rightarrow> (case success st of (msg, st') \<Rightarrow> raise_toast (Success msg) st')
      | Failed \<Rightarrow> raise_toast (Failure error) st)"

definition votes_key :: "string \<Rightarrow> string" where
  "votes_key c = ''/api/vote?chatId='' @ c"

record props =
  p_chatId :: string
  p_message :: message
  p_vote :: "WorkspaceChatVote option"
  p_isLoading :: bool

text \<open>The updater functions handed to \<open>mutate\<close> (lines 90 to 106 and 144 to 160).\<close>

definition upvote_update ::
  "string \<Rightarrow> message \<Rightarrow> user \<Rightarrow> WorkspaceChatVote list option \<Rightarrow> WorkspaceChatVote list" where
  "upvote_update c msg u currentVotes =
     (case currentVotes of
        None \<Rightarrow> []
      | Some vs \<Rightarrow>
          filter (\<lambda>v. message_id v \<noteq> msg_id msg) vs @
          [\<lparr>chat_id = c, message_id = msg_id msg, is_upvoted = True, user_id = user_ident u\<rparr>])"

definition downvote_update ::
  "string \<Rightarrow> message \<Rightarrow> user \<Rightarrow> WorkspaceChatVote list option \<Rightarrow> WorkspaceChatVote list" where
  "downvote_update c msg u currentVotes =
     (case currentVotes of
        None \<Rightarrow> []
      | Some vs \<Rightarrow>
          filter (\<lambda>v. message_id v \<noteq> msg_id msg) vs @
          [\<lparr>chat_id = c, message_id = msg_id msg, is_upvoted = False, user_id = user_ident u\<rparr>])"

text \<open>
  The upvote button's \<open>onClick\<close> (lines 75 to 114), in its two moments: the click itself,
  which issues the request and hands the promise to \<open>toast.promise\<close>, and the settling of
  that promise.
\<close>

definition upvote_onClick :: "props \<Rightarrow> user \<Rightarrow> client \<Rightarrow> client" where
  "upvote_onClick p u st =
     raise_toast (Loading ''Upvoting Response...'')
       (fetch \<lparr>body_chatId = Some (p_chatId p), body_messageId = Some (msg_id (p_message p)),
               body_type = Some ''up''\<rparr> st)"

definition upvote_settled :: "props \<Rightarrow> user \<Rightarrow> settled \<Rightarrow> client \<Rightarrow> client" where
  "upvote_settled p u r st =
     toast_promise_settled r
       (\<lambda>st. (''Upvoted Response!'',
              mutate (votes_key (p_chatId p)) (upvote_update (p_chatId p) (p_message p) u) st))
       ''Failed to upvote response.'' st"

text \<open>The downvote button's \<open>onClick\<close> (lines 129 to 168).\<close>

definition downvote_onClick :: "props \<Rightarrow> user \<Rightarrow> client \<Rightarrow> client" where
  "downvote_onClick p u st =
     raise_toast (Loading ''Downvoting Response...'')
       (fetch \<lparr>body_chatId = Some (p_chatId p), body_messageId = Some (msg_id (p_message p)),
               body_type = Some ''down''\<rparr> st)"

definition downvote_settled :: "props \<Rightarrow> user \<Rightarrow> settled \<Rightarrow> client \<Rightarrow> client" where
  "downvote_settled p u r st =
     toast_promise_settled r
       (\<lambda>st. (''Downvoted Response!'',
              mutate (votes_key (p_chatId p)) (downvote_update (p_chatId p) (p_message p) u) st))
       ''Failed to downvote response.'' st"

text \<open>
  What \<open>PureMessageActions\<close> renders (lines 35 to 177): nothing, or the controls with the
  \<open>disabled\<close> attribute of the two vote buttons. \<open>vote?.is_upvoted\<close> and
  \<open>vote && !vote.is_upvoted\<close> are falsy when \<open>vote\<close> is \<open>undefined\<close>.
\<close>

record controls =
  upvote_disabled :: bool
  downvote_disabled :: bool

definition PureMessageActions :: "props \<Rightarrow> controls option" where
  "PureMessageActions p =
     (if p_isLoading p then None
      else if msg_role (p_message p) = User then None
      else Some \<lparr>upvote_disabled = (case p_vote p of None \<Rightarrow> False | Some v \<Rightarrow> is_upvoted v),
                 downvote_disabled = (case p_vote p of None \<Rightarrow> False | Some v \<Rightarrow> \<not> is_upvoted v)\<rparr>)"

text \<open>
  The chat component's two callbacks handed to \<open>useChat\<close> (lines 52 to 57), and
  \<open>useChat\<close> calling them when the stream of a turn ends. \<open>getChatHistoryPaginationKey\<close>
  is imported from a module that is not at hand: it is a parameter.
\<close>

datatype stream_end = Finish | StreamError

definition Chat_onFinish :: "(string \<Rightarrow> string) \<Rightarrow> string \<Rightarrow> client \<Rightarrow> client" where
  "Chat_onFinish getChatHistoryPaginationKey workspaceId st =
     mutate_key (getChatHistoryPaginationKey workspaceId) st"

definition Chat_onError :: "client \<Rightarrow> client" where
  "Chat_onError st = raise_toast (Failure ''An error occurred, please try again!'') st"

definition Chat_stream_end ::
  "(string \<Rightarrow> string) \<Rightarrow> string \<Rightarrow> stream_end \<Rightarrow> client \<Rightarrow> client" where
  "Chat_stream_end getChatHistoryPaginationKey workspaceId e st =
     (case e of
        Finish \<Rightarrow> Chat_onFinish getChatHistoryPaginationKey workspaceId st
      | StreamError \<Rightarrow> Chat_onError st)"

text \<open>Concrete inputs for the examples below.\<close>

definition alice :: user where
  "alice = \<lparr>user_ident = ''u1'', user_email = ''alice@example.org''\<rparr>"

definition m1_props :: props where
  "m1_props = \<lparr>p_chatId = ''c1'', p_message = \<lparr>msg_id = ''m1'', msg_role = Assistant\<rparr>,
                p_vote = None, p_isLoading = False\<rparr>"

definition fresh_client :: client where
  "fresh_client = \<lparr>cache = (\<lambda>k. None), revalidated = [], toasts = [], requests = []\<rparr>"

definition c1_server :: server where
  "c1_server = \<lparr>session = Some alice, chats = (\<lambda>k. if k = ''c1'' then Some (Chat ''c1'') else None),
                 votes = []\<rparr>"

section \<open>The upsert keeps one record per message\<close>








lemmas client_defs = mutate_def mutate_key_def raise_toast_def fetch_def toast_promise_settled_def

section \<open>The vote handlers and the cache\<close>

text \<open>
  C1, as the code has it: a click on a vote button issues the \<open>PATCH\<close> request and raises
  the loading toast, and changes nothing else, so the cache is as it was; the cached list
  for \<open>/api/vote?chatId=<chatId>\<close> is rewritten only in the success callback, when the
  request has succeeded, and a failed request raises the failure toast and leaves the cache
  as it was.
\<close>

theorem vote_cache_written_only_on_success:
  "upvote_onClick p u st =
     st\<lparr>requests := requests st @
            [\<lparr>body_chatId = Some (p_chatId p), body_messageId = Some (msg_id (p_message p)),
              body_type = Some ''up''\<rparr>],
        toasts := toasts st @ [Loading ''Upvoting Response...'']\<rparr>
   \<and> downvote_onClick p u st =
     st\<lparr>requests := requests st @
            [\<lparr>body_chatId = Some (p_chatId p), body_messageId = Some (msg_id (p_message p)),
              body_type = Some ''down''\<rparr>],
        toasts := toasts st @ [Loading ''Downvoting Response...'']\<rparr>
   \<and> cache (upvote_onClick p u st) = cache st
   \<and> cache (downvote_onClick p u st) = cache st
   \<and> upvote_settled p u Failed st
       = st\<lparr>toasts := toasts st @ [Failure ''Failed to upvote response.'']\<rparr>
   \<and> downvote_settled p u Failed st
       = st\<lparr>toasts := toasts st @ [Failure ''Failed to downvote response.'']\<rparr>
   \<and> cache (upvote_settled p u Failed st) = cache st
   \<and> cache (downvote_settled p u Failed st) = cache st
   \<and> upvote_settled p u Succeeded st =
       st\<lparr>cache := (cache st)(votes_key (p_chatId p) :=
              Some (upvote_update (p_chatId p) (p_message p) u (cache st (votes_key (p_chatId p))))),
          toasts := toasts st @ [Success ''Upvoted Response!'']\<rparr>
   \<and> downvote_settled p u Succeeded st =
       st\<lparr>cache := (cache st)(votes_key (p_chatId p) :=
              Some (downvote_update (p_chatId p) (p_message p) u (cache st (votes_key (p_chatId p))))),
          toasts := toasts st @ [Success ''Downvoted Response!'']\<rparr>"
  by (simp add: upvote_onClick_def downvote_onClick_def upvote_settled_def downvote_settled_def
      client_defs)

text \<open>
  C1 as stated fails: with the fetched, empty list cached for chat \<open>c1\<close>, the cache after
  the click on the upvote button of message \<open>m1\<close> is not the list with the new vote, and
  it is not that list either once the request has failed.
\<close>

theorem optimistic_vote_counterexample:
  "cache (upvote_onClick m1_props alice (fresh_client\<lparr>cache := (\<lambda>k. Some [])\<rparr>)) (votes_key ''c1'')
     \<noteq> Some [\<lparr>chat_id = ''c1'', message_id = ''m1'', is_upvoted = True, user_id = ''u1''\<rparr>]
   \<and> cache (upvote_settled m1_props alice Failed
        (upvote_onClick m1_props alice (fresh_client\<lparr>cache := (\<lambda>k. Some [])\<rparr>))) (votes_key ''c1'')
     \<noteq> Some [\<lparr>chat_id = ''c1'', message_id = ''m1'', is_upvoted = True, user_id = ''u1''\<rparr>]
   \<and> cache (upvote_settled m1_props alice Succeeded
        (upvote_onClick m1_props alice (fresh_client\<lparr>cache := (\<lambda>k. Some [])\<rparr>))) (votes_key ''c1'')
     = Some [\<lparr>chat_id = ''c1'', message_id = ''m1'', is_upvoted = True, user_id = ''u1''\<rparr>]"
  by (simp add: upvote_onClick_def upvote_settled_def client_defs upvote_update_def
      m1_props_def alice_def fresh_client_def votes_key_def)

text \<open>
  C2, as the code has it: when the cached list of the chat is unfetched, a vote whose
  request succeeds stores the empty list, without the new entry. On a fetched list the
  entries of the message are removed, the other entries kept in their order, and the new
  entry is appended; so a fetched empty list becomes the list of that one entry. The
  lists cached under other keys are not touched.
\<close>

theorem vote_on_unfetched_cache:
  "(cache st (votes_key (p_chatId p)) = None \<longrightarrow>
      cache (upvote_settled p u Succeeded (upvote_onClick p u st)) (votes_key (p_chatId p)) = Some []
      \<and> cache (downvote_settled p u Succeeded (downvote_onClick p u st)) (votes_key (p_chatId p))
          = Some [])
   \<and> (cache st (votes_key (p_chatId p)) = Some vs \<longrightarrow>
      cache (upvote_settled p u Succeeded (upvote_onClick p u st)) (votes_key (p_chatId p))
          = Some (filter (\<lambda>v. message_id v \<noteq> msg_id (p_message p)) vs @
                  [\<lparr>chat_id = p_chatId p, message_id = msg_id (p_message p), is_upvoted = True,
                    user_id = user_ident u\<rparr>])
      \<and> cache (downvote_settled p u Succeeded (downvote_onClick p u st)) (votes_key (p_chatId p))
          = Some (filter (\<lambda>v. message_id v \<noteq> msg_id (p_message p)) vs @
                  [\<lparr>chat_id = p_chatId p, message_id = msg_id (p_message p), is_upvoted = False,
                    user_id = user_ident u\<rparr>]))
   \<and> (cache st (votes_key (p_chatId p)) = Some [] \<longrightarrow>
      cache (upvote_settled p u Succeeded (upvote_onClick p u st)) (votes_key (p_chatId p))
          = Some [\<lparr>chat_id = p_chatId p, message_id = msg_id (p_message p), is_upvoted = True,
                   user_id = user_ident u\<rparr>]
      \<and> cache (downvote_settled p u Succeeded (downvote_onClick p u st)) (votes_key (p_chatId p))
          = Some [\<lparr>chat_id = p_chatId p, message_id = msg_id (p_message p), is_upvoted = False,
                   user_id = user_ident u\<rparr>])
   \<and> (k \<noteq> votes_key (p_chatId p) \<longrightarrow>
      cache (upvote_settled p u Succeeded (upvote_onClick p u st)) k = cache st k
      \<and> cache (downvote_settled p u Succeeded (downvote_onClick p u st)) k = cache st k)"
  by (simp add: upvote_onClick_def upvote_settled_def downvote_onClick_def downvote_settled_def
      client_defs upvote_update_def downvote_update_def)

theorem vote_on_unfetched_cache_witness:
  "cache fresh_client (votes_key (p_chatId m1_props)) = None
   \<and> cache (upvote_settled m1_props alice Succeeded (upvote_onClick m1_props alice fresh_client))
        (votes_key (p_chatId m1_props)) = Some []
   \<and> cache (fresh_client\<lparr>cache := (\<lambda>k. Some [])\<rparr>) (votes_key (p_chatId m1_props)) = Some []
   \<and> cache (downvote_settled m1_props alice Succeeded
        (downvote_onClick m1_props alice (fresh_client\<lparr>cache := (\<lambda>k. Some [])\<rparr>)))
        (votes_key (p_chatId m1_props))
       = Some [\<lparr>chat_id = ''c1'', message_id = ''m1'', is_upvoted = False, user_id = ''u1''\<rparr>]
   \<and> cache (fresh_client\<lparr>cache := (\<lambda>k. Some
          [\<lparr>chat_id = ''c1'', message_id = ''m1'', is_upvoted = False, user_id = ''u1''\<rparr>,
           \<lparr>chat_id = ''c1'', message_id = ''m2'', is_upvoted = False, user_id = ''u1''\<rparr>])\<rparr>)
        (votes_key (p_chatId m1_props))
       = Some [\<lparr>chat_id = ''c1'', message_id = ''m1'', is_upvoted = False, user_id = ''u1''\<rparr>,
               \<lparr>chat_id = ''c1'', message_id = ''m2'', is_upvoted = False, user_id = ''u1''\<rparr>]
   \<and> cache (upvote_settled m1_props alice Succeeded
        (upvote_onClick m1_props alice (fresh_client\<lparr>cache := (\<lambda>k. Some
          [\<lparr>chat_id = ''c1'', message_id = ''m1'', is_upvoted = False, user_id = ''u1''\<rparr>,
           \<lparr>chat_id = ''c1'', message_id = ''m2'', is_upvoted = False, user_id = ''u1''\<rparr>])\<rparr>)))
        (votes_key (p_chatId m1_props))
       = Some [\<lparr>chat_id = ''c1'', message_id = ''m2'', is_upvoted = False, user_id = ''u1''\<rparr>,
               \<lparr>chat_id = ''c1'', message_id = ''m1'', is_upvoted = True, user_id = ''u1''\<rparr>]
   \<and> ''/api/history'' \<noteq> votes_key (p_chatId m1_props)
   \<and> cache (upvote_settled m1_props alice Succeeded (upvote_onClick m1_props alice fresh_client))
        ''/api/history'' = None"
  using vote_on_unfetched_cache [of fresh_client m1_props alice "[]" "''/api/history''"]
    vote_on_unfetched_cache [of "fresh_client\<lparr>cache := (\<lambda>k. Some [])\<rparr>" m1_props alice "[]"
      "''/api/history''"]
    vote_on_unfetched_cache [of "fresh_client\<lparr>cache := (\<lambda>k. Some
          [\<lparr>chat_id = ''c1'', message_id = ''m1'', is_upvoted = False, user_id = ''u1''\<rparr>,
           \<lparr>chat_id = ''c1'', message_id = ''m2'', is_upvoted = False, user_id = ''u1''\<rparr>])\<rparr>"
      m1_props alice
      "[\<lparr>chat_id = ''c1'', message_id = ''m1'', is_upvoted = False, user_id = ''u1''\<rparr>,
        \<lparr>chat_id = ''c1'', message_id = ''m2'', is_upvoted = False, user_id = ''u1''\<rparr>]"
      "''/api/history''"]
  by (simp add: fresh_client_def m1_props_def alice_def votes_key_def)

text \<open>
  C2 as stated fails: on the unfetched cache of chat \<open>c1\<close>, the upvote of message \<open>m1\<close>
  and its successful request leave the empty list, not the list of the one new entry.
\<close>

theorem unfetched_cache_counterexample:
  "cache fresh_client (votes_key ''c1'') = None
   \<and> cache (upvote_settled m1_props alice Succeeded (upvote_onClick m1_props alice fresh_client))
        (votes_key ''c1'') = Some []
   \<and> cache (upvote_settled m1_props alice Succeeded (upvote_onClick m1_props alice fresh_client))
        (votes_key ''c1'')
       \<noteq> Some [\<lparr>chat_id = ''c1'', message_id = ''m1'', is_upvoted = True, user_id = ''u1''\<rparr>]"
  by (simp add: upvote_onClick_def upvote_settled_def client_defs upvote_update_def
      m1_props_def alice_def fresh_client_def votes_key_def)

text \<open>
  C5, as the code has it: on a fetched list the updater replaces by key. The entries of
  other messages are kept in their order, the entries of the message are removed and the
  new entry is appended, so that the only entry of the message carries the direction
  voted, for an upvote and for a downvote alike. Hence on every fetched list voting the
  same direction twice gives the list that voting once gives, and up, down, up gives the
  list of the first upvote. On the unfetched cache the updater returns the empty list.
\<close>

theorem vote_update_replaces_by_key:
  "upvote_update c msg u None = []
   \<and> downvote_update c msg u None = []
   \<and> upvote_update c msg u (Some vs) =
       filter (\<lambda>v. message_id v \<noteq> msg_id msg) vs @
       [\<lparr>chat_id = c, message_id = msg_id msg, is_upvoted = True, user_id = user_ident u\<rparr>]
   \<and> downvote_update c msg u (Some vs) =
       filter (\<lambda>v. message_id v \<noteq> msg_id msg) vs @
       [\<lparr>chat_id = c, message_id = msg_id msg, is_upvoted = False, user_id = user_ident u\<rparr>]
   \<and> filter (\<lambda>v. message_id v \<noteq> msg_id msg) (upvote_update c msg u (Some vs))
       = filter (\<lambda>v. message_id v \<noteq> msg_id msg) vs
   \<and> filter (\<lambda>v. message_id v \<noteq> msg_id msg) (downvote_update c msg u (Some vs))
       = filter (\<lambda>v. message_id v \<noteq> msg_id msg) vs
   \<and> filter (\<lambda>v. message_id v = msg_id msg) (upvote_update c msg u (Some vs))
       = [\<lparr>chat_id = c, message_id = msg_id msg, is_upvoted = True, user_id = user_ident u\<rparr>]
   \<and> filter (\<lambda>v. message_id v = msg_id msg) (downvote_update c msg u (Some vs))
       = [\<lparr>chat_id = c, message_id = msg_id msg, is_upvoted = False, user_id = user_ident u\<rparr>]
   \<and> upvote_update c msg u (Some (upvote_update c msg u (Some vs))) = upvote_update c msg u (Some vs)
   \<and> downvote_update c msg u (Some (downvote_update c msg u (Some vs)))
       = downvote_update c msg u (Some vs)
   \<and> filter (\<lambda>v. message_id v = msg_id msg)
        (downvote_update c msg u (Some (upvote_update c msg u (Some vs))))
       = [\<lparr>chat_id = c, message_id = msg_id msg, is_upvoted = False, user_id = user_ident u\<rparr>]
   \<and> upvote_update c msg u
        (Some (downvote_update c msg u (Some (upvote_update c msg u (Some vs)))))
       = upvote_update c msg u (Some vs)"
  by (simp add: upvote_update_def downvote_update_def)

text \<open>
  C5 as stated fails on the unfetched cache: one upvote of message \<open>m1\<close> whose request
  succeeds leaves the empty list, with no vote to show, and the same upvote once more
  leaves the list with the upvote.
\<close>

theorem repeated_vote_on_unfetched_cache_counterexample:
  "cache fresh_client (votes_key ''c1'') = None
   \<and> cache (upvote_settled m1_props alice Succeeded (upvote_onClick m1_props alice fresh_client))
        (votes_key ''c1'') = Some []
   \<and> cache (upvote_settled m1_props alice Succeeded (upvote_onClick m1_props alice
        (upvote_settled m1_props alice Succeeded (upvote_onClick m1_props alice fresh_client))))
        (votes_key ''c1'')
       = Some [\<lparr>chat_id = ''c1'', message_id = ''m1'', is_upvoted = True, user_id = ''u1''\<rparr>]
   \<and> upvote_update ''c1'' (p_message m1_props) alice
        (Some (upvote_update ''c1'' (p_message m1_props) alice None))
       \<noteq> upvote_update ''c1'' (p_message m1_props) alice None"
  by (simp add: upvote_onClick_def upvote_settled_def client_defs upvote_update_def
      m1_props_def alice_def fresh_client_def votes_key_def)

text \<open>
  C6: when the request of a vote fails, the failure toast is raised and the cache is what
  it was, both after the failure alone and after the click followed by the failure.
\<close>

theorem failed_vote_keeps_cache:
  "cache (upvote_settled p u Failed st) = cache st
   \<and> toasts (upvote_settled p u Failed st) = toasts st @ [Failure ''Failed to upvote response.'']
   \<and> cache (downvote_settled p u Failed st) = cache st
   \<and> toasts (downvote_settled p u Failed st)
       = toasts st @ [Failure ''Failed to downvote response.'']
   \<and> cache (upvote_settled p u Failed (upvote_onClick p u st)) = cache st
   \<and> cache (downvote_settled p u Failed (downvote_onClick p u st)) = cache st"
  by (simp add: upvote_onClick_def downvote_onClick_def upvote_settled_def downvote_settled_def
      client_defs)

section \<open>The controls\<close>

text \<open>
  C8: for an assistant message that is not loading the controls are rendered; the upvote
  button is disabled exactly when there is a cached vote that is an upvote, the downvote
  button exactly when there is a cached vote that is not, and with no cached vote neither
  is. Both flags are computed from the \<open>vote\<close> property at each rendering.
\<close>

theorem vote_controls_disabled:
  assumes "\<not> p_isLoading p" and "msg_role (p_message p) = Assistant"
  shows "\<exists>a. PureMessageActions p = Some a
     \<and> upvote_disabled a = (\<exists>v. p_vote p = Some v \<and> is_upvoted v)
     \<and> downvote_disabled a = (\<exists>v. p_vote p = Some v \<and> \<not> is_upvoted v)
     \<and> (p_vote p = None \<longrightarrow> \<not> upvote_disabled a \<and> \<not> downvote_disabled a)"
  using assms by (auto simp: PureMessageActions_def split: option.splits)

theorem vote_controls_disabled_witness:
  "\<not> p_isLoading m1_props \<and> msg_role (p_message m1_props) = Assistant
   \<and> p_vote m1_props = None
   \<and> PureMessageActions m1_props = Some \<lparr>upvote_disabled = False, downvote_disabled = False\<rparr>
   \<and> PureMessageActions (m1_props\<lparr>p_vote :=
        Some \<lparr>chat_id = ''c1'', message_id = ''m1'', is_upvoted = True, user_id = ''u1''\<rparr>\<rparr>)
       = Some \<lparr>upvote_disabled = True, downvote_disabled = False\<rparr>
   \<and> PureMessageActions (m1_props\<lparr>p_vote :=
        Some \<lparr>chat_id = ''c1'', message_id = ''m1'', is_upvoted = False, user_id = ''u1''\<rparr>\<rparr>)
       = Some \<lparr>upvote_disabled = False, downvote_disabled = True\<rparr>"
  using vote_controls_disabled [of m1_props]
    vote_controls_disabled [of "m1_props\<lparr>p_vote :=
        Some \<lparr>chat_id = ''c1'', message_id = ''m1'', is_upvoted = True, user_id = ''u1''\<rparr>\<rparr>"]
    vote_controls_disabled [of "m1_props\<lparr>p_vote :=
        Some \<lparr>chat_id = ''c1'', message_id = ''m1'', is_upvoted = False, user_id = ''u1''\<rparr>\<rparr>"]
  by (simp add: m1_props_def PureMessageActions_def)

text \<open>
  C10, as the code has it: \<open>PureMessageActions\<close> renders nothing exactly when \<open>isLoading\<close>
  is true or the message's role is \<open>user\<close>, and each vote handler sends the identifier of
  the message it was rendered for; so a vote issued through the component targets a
  message whose role is not \<open>user\<close>, rendered with \<open>isLoading\<close> false.
\<close>

theorem vote_targets_non_user_message:
  "(PureMessageActions p = None) = (p_isLoading p \<or> msg_role (p_message p) = User)
   \<and> requests (upvote_onClick p u st) = requests st @
       [\<lparr>body_chatId = Some (p_chatId p), body_messageId = Some (msg_id (p_message p)),
         body_type = Some ''up''\<rparr>]
   \<and> requests (downvote_onClick p u st) = requests st @
       [\<lparr>body_chatId = Some (p_chatId p), body_messageId = Some (msg_id (p_message p)),
         body_type = Some ''down''\<rparr>]"
  by (simp add: PureMessageActions_def upvote_onClick_def downvote_onClick_def fetch_def
      raise_toast_def)

text \<open>
  C10 as stated fails: for a message of role \<open>system\<close> that is not loading the controls
  are rendered, and the upvote handler sends that message's identifier.
\<close>

theorem vote_on_system_message_counterexample:
  "PureMessageActions \<lparr>p_chatId = ''c1'', p_message = \<lparr>msg_id = ''m0'', msg_role = System\<rparr>,
                       p_vote = None, p_isLoading = False\<rparr>
     = Some \<lparr>upvote_disabled = False, downvote_disabled = False\<rparr>
   \<and> requests (upvote_onClick
        \<lparr>p_chatId = ''c1'', p_message = \<lparr>msg_id = ''m0'', msg_role = System\<rparr>,
         p_vote = None, p_isLoading = False\<rparr> alice fresh_client)
     = [\<lparr>body_chatId = Some ''c1'', body_messageId = Some ''m0'', body_type = Some ''up''\<rparr>]
   \<and> System \<noteq> Assistant"
  by (simp add: PureMessageActions_def upvote_onClick_def fetch_def raise_toast_def
      fresh_client_def)

section \<open>The end of a turn's stream\<close>

text \<open>
  C7: when the stream of a turn finishes, the chat component hands the history pagination
  key of the workspace to \<open>mutate\<close>, which invalidates it; when the stream ends with an
  error, the failure toast is raised.
\<close>

theorem chat_stream_end:
  "revalidated (Chat_stream_end getChatHistoryPaginationKey workspaceId Finish st)
     = revalidated st @ [getChatHistoryPaginationKey workspaceId]
   \<and> toasts (Chat_stream_end getChatHistoryPaginationKey workspaceId StreamError st)
     = toasts st @ [Failure ''An error occurred, please try again!'']"
  by (simp add: Chat_stream_end_def Chat_onFinish_def Chat_onError_def mutate_key_def
      raise_toast_def)

section \<open>The vote endpoints\<close>

text \<open>
  C4, as the code has it: \<open>GET\<close> answers 400 when the \<open>chatId\<close> parameter is missing.
  Otherwise the caller is resolved first: when that fails the handler throws and answers
  neither 404 nor 200. For a resolved caller it answers 404 when the chat does not
  resolve, and otherwise 200 with the vote records of that chat, the empty list when the
  chat has none.
\<close>

theorem get_votes:
  "(missing q \<longrightarrow> GET q s = Inr \<lparr>status = 400, payload = Text ''chatId is required''\<rparr>)
   \<and> (q = Some c \<and> c \<noteq> [] \<and> session s = None \<longrightarrow> GET q s = Inl Unauthorized)
   \<and> (q = Some c \<and> c \<noteq> [] \<and> session s \<noteq> None \<and> getChatById c s = None
      \<longrightarrow> GET q s = Inr \<lparr>status = 404, payload = Text ''Chat not found''\<rparr>)
   \<and> (q = Some c \<and> c \<noteq> [] \<and> session s \<noteq> None \<and> getChatById c s \<noteq> None
      \<longrightarrow> GET q s = Inr \<lparr>status = 200, payload = Json (getVotesByChatId c s)\<rparr>
          \<and> getVotesByChatId c s = filter (\<lambda>v. chatId v = c) (votes s)
          \<and> ((\<forall>v \<in> set (votes s). chatId v \<noteq> c)
               \<longrightarrow> GET q s = Inr \<lparr>status = 200, payload = Json []\<rparr>))"
proof (intro conjI impI)
  assume "missing q"
  then show "GET q s = Inr \<lparr>status = 400, payload = Text ''chatId is required''\<rparr>"
    by (cases q) (simp_all add: missing_def)
next
  assume "q = Some c \<and> c \<noteq> [] \<and> session s = None"
  then show "GET q s = Inl Unauthorized"
    by (auto simp: serverGetLoggedInUser_def)
next
  assume "q = Some c \<and> c \<noteq> [] \<and> session s \<noteq> None \<and> getChatById c s = None"
  then show "GET q s = Inr \<lparr>status = 404, payload = Text ''Chat not found''\<rparr>"
    by (auto simp: serverGetLoggedInUser_def)
next
  assume a: "q = Some c \<and> c \<noteq> [] \<and> session s \<noteq> None \<and> getChatById c s \<noteq> None"
  then show ok: "GET q s = Inr \<lparr>status = 200, payload = Json (getVotesByChatId c s)\<rparr>"
    by (auto simp: serverGetLoggedInUser_def)
  show "getVotesByChatId c s = filter (\<lambda>v. chatId v = c) (votes s)"
    by (simp add: getVotesByChatId_def)
  assume "\<forall>v \<in> set (votes s). chatId v \<noteq> c"
  then have "getVotesByChatId c s = []"
    by (simp add: getVotesByChatId_def filter_empty_conv)
  with ok show "GET q s = Inr \<lparr>status = 200, payload = Json []\<rparr>" by simp
qed

theorem get_votes_witness:
  "missing None
   \<and> GET None c1_server = Inr \<lparr>status = 400, payload = Text ''chatId is required''\<rparr>
   \<and> session (c1_server\<lparr>session := None\<rparr>) = None
   \<and> GET (Some ''c1'') (c1_server\<lparr>session := None\<rparr>) = Inl Unauthorized
   \<and> session c1_server \<noteq> None \<and> getChatById ''c2'' c1_server = None
   \<and> GET (Some ''c2'') c1_server = Inr \<lparr>status = 404, payload = Text ''Chat not found''\<rparr>
   \<and> getChatById ''c1'' c1_server \<noteq> None
   \<and> list_all (\<lambda>v. chatId v \<noteq> ''c1'')
        (votes (c1_server\<lparr>votes := [\<lparr>chatId = ''c2'', messageId = ''m7'', isUpvoted = True\<rparr>]\<rparr>))
   \<and> GET (Some ''c1'')
        (c1_server\<lparr>votes := [\<lparr>chatId = ''c2'', messageId = ''m7'', isUpvoted = True\<rparr>]\<rparr>)
       = Inr \<lparr>status = 200, payload = Json []\<rparr>
   \<and> GET (Some ''c1'')
        (c1_server\<lparr>votes := [\<lparr>chatId = ''c1'', messageId = ''m1'', isUpvoted = False\<rparr>,
                              \<lparr>chatId = ''c2'', messageId = ''m7'', isUpvoted = True\<rparr>]\<rparr>)
       = Inr \<lparr>status = 200,
              payload = Json [\<lparr>chatId = ''c1'', messageId = ''m1'', isUpvoted = False\<rparr>]\<rparr>"
  using get_votes [of None c1_server "''c1''"]
    get_votes [of "Some ''c1''" "c1_server\<lparr>session := None\<rparr>" "''c1''"]
    get_votes [of "Some ''c2''" c1_server "''c2''"]
    get_votes [of "Some ''c1''"
      "c1_server\<lparr>votes := [\<lparr>chatId = ''c2'', messageId = ''m7'', isUpvoted = True\<rparr>]\<rparr>" "''c1''"]
    get_votes [of "Some ''c1''"
      "c1_server\<lparr>votes := [\<lparr>chatId = ''c1'', messageId = ''m1'', isUpvoted = False\<rparr>,
                            \<lparr>chatId = ''c2'', messageId = ''m7'', isUpvoted = True\<rparr>]\<rparr>" "''c1''"]
  by (simp add: missing_def c1_server_def getChatById_def)

text \<open>
  C4 as stated fails: for a caller that does not resolve, the request for the unknown chat
  \<open>c2\<close> is not answered 404 and the request for the chat \<open>c1\<close> is not answered 200; the
  handler throws.
\<close>

theorem get_votes_counterexample:
  "getChatById ''c2'' (c1_server\<lparr>session := None\<rparr>) = None
   \<and> GET (Some ''c2'') (c1_server\<lparr>session := None\<rparr>) = Inl Unauthorized
   \<and> getChatById ''c1'' (c1_server\<lparr>session := None\<rparr>) = Some (Chat ''c1'')
   \<and> GET (Some ''c1'') (c1_server\<lparr>session := None\<rparr>) = Inl Unauthorized"
  by (simp add: c1_server_def getChatById_def serverGetLoggedInUser_def)






end
